theory Spec2Isabelle
  imports Main
begin

section \<open>The declarations of \<^verbatim>\<open>src/types.ts\<close>\<close>

text \<open>
  The file \<^verbatim>\<open>types.ts\<close> holds declarations only: enums, record types and the
  interface \<^verbatim>\<open>TangemSdk\<close> with its method signatures. Each declaration becomes a
  constant of the same name that describes the declared type; a method becomes its
  signature (name, parameters in order, return type), called an operation. The values that cross the
  bridge are the JavaScript data values, and \<open>conforms\<close> says when a value has a
  declared type.
\<close>

subsection \<open>Values\<close>

text \<open>
  JavaScript data values. An object is the list of its properties (the first entry of
  a name is the property). The payload of a number and of a \<^verbatim>\<open>Date\<close> plays no part
  in typing and is kept as an integer.
\<close>

datatype val =
    VUndefined
  | VNull
  | VBool bool
  | VNum int
  | VStr string
  | VDate int
  | VArr "val list"
  | VObj "(string \<times> val) list"

subsection \<open>Type expressions\<close>

text \<open>
  The type expressions that occur in the file: the primitive types, the wrapper types
  \<^verbatim>\<open>String\<close>, \<^verbatim>\<open>Number\<close>, \<^verbatim>\<open>Boolean\<close>, \<^verbatim>\<open>Date\<close>, a string literal type, an enum
  (its members with their values), the array \<^verbatim>\<open>T[]\<close>, the tuple \<^verbatim>\<open>[T1, ..., Tn]\<close>,
  an object type (its members), \<^verbatim>\<open>Promise<T>\<close> and a function type. A member of an
  object type and a parameter of a method have the same form: a name, the optional
  mark \<^verbatim>\<open>?\<close>, a type.
\<close>

datatype ty =
    TString
  | TNumber
  | TBoolean
  | TVoid
  | TStringObj
  | TNumberObj
  | TBooleanObj
  | TDate
  | TLit string
  | TEnum "(string \<times> val) list"
  | TArray ty
  | TTuple "ty list"
  | TObj "decl list"
  | TPromise ty
  | TFun "decl list" ty
and decl = Decl (dname: string) (optional: bool) (dtype: ty)

datatype operation = Operation (opname: string) (params: "decl list") (ret: ty)

subsection \<open>Enums and aliases\<close>

definition EllipticCurve :: ty where
  "EllipticCurve = TEnum
     [(''Secp256k1'', VStr ''secp256k1''),
      (''Ed25519'', VStr ''ed25519''),
      (''Secp256r1'', VStr ''secp256r1'')]"

definition SigningMethod :: ty where
  "SigningMethod = TEnum
     [(''SignHash'', VStr ''SignHash''),
      (''SignRaw'', VStr ''SignRaw''),
      (''SignHashSignedByIssuer'', VStr ''SignHashSignedByIssuer''),
      (''SignRawSignedByIssuer'', VStr ''SignRawSignedByIssuer''),
      (''SignHashSignedByIssuerAndUpdateIssuerData'',
         VStr ''SignHashSignedByIssuerAndUpdateIssuerData''),
      (''SignRawSignedByIssuerAndUpdateIssuerData'',
         VStr ''SignRawSignedByIssuerAndUpdateIssuerData''),
      (''SignPos'', VStr ''SignPos'')]"

definition EncryptionMode :: ty where
  "EncryptionMode = TEnum
     [(''None'', VStr ''none''), (''Fast'', VStr ''fast''), (''Strong'', VStr ''strong'')]"

definition FirmwareType :: ty where
  "FirmwareType = TEnum
     [(''Sdk'', VStr ''d SDK''), (''Release'', VStr ''r''), (''Special'', VStr ''special'')]"

text \<open>\<^verbatim>\<open>FileSettings\<close> has no initialisers: its members are numbered from 0.\<close>

definition FileSettings :: ty where
  "FileSettings = TEnum [(''Private'', VNum 0), (''Public'', VNum 1)]"

definition FileValidation :: ty where
  "FileValidation = TEnum
     [(''NotValidated'', VStr ''notValidated''),
      (''Valid'', VStr ''valid''),
      (''Corrupted'', VStr ''corrupted'')]"

definition Status :: ty where
  "Status = TEnum
     [(''Failed'', VStr ''failed''),
      (''Warning'', VStr ''warning''),
      (''Skipped'', VStr ''skipped''),
      (''VerifiedOffline'', VStr ''verifiedOffline''),
      (''Verified'', VStr ''verified'')]"

definition LinkedTerminalStatus :: ty where
  "LinkedTerminalStatus = TEnum
     [(''Current'', VStr ''current''), (''Other'', VStr ''other''), (''None'', VStr ''none'')]"

definition Data :: ty where
  "Data = TString"

definition DerivationPath :: ty where
  "DerivationPath = TString"

subsection \<open>Records\<close>

definition FirmwareVersion :: ty where
  "FirmwareVersion = TObj
     [Decl ''hotFix'' False TNumber,
      Decl ''major'' False TNumber,
      Decl ''minor'' False TNumber,
      Decl ''type'' False FirmwareType,
      Decl ''version'' False TString]"

definition WalletSettings :: ty where
  "WalletSettings = TObj [Decl ''isPermanent'' False TBooleanObj]"

definition Wallet :: ty where
  "Wallet = TObj
     [Decl ''publicKey'' False Data,
      Decl ''chainCode'' True Data,
      Decl ''curve'' False EllipticCurve,
      Decl ''settings'' False WalletSettings,
      Decl ''totalSignedHashes'' True TNumberObj,
      Decl ''remainingSignatures'' True TNumberObj,
      Decl ''index'' False TNumberObj]"

definition Manufacturer :: ty where
  "Manufacturer = TObj
     [Decl ''name'' False TString,
      Decl ''manufactureDate'' False TDate,
      Decl ''signature'' True Data]"

definition Issuer :: ty where
  "Issuer = TObj
     [Decl ''name'' False TStringObj,
      Decl ''publicKey'' False Data]"

definition Settings :: ty where
  "Settings = TObj
     [Decl ''securityDelay'' False TNumber,
      Decl ''maxWalletsCount'' False TNumber,
      Decl ''isSettingAccessCodeAllowed'' False TBoolean,
      Decl ''isSettingPasscodeAllowed'' False TBoolean,
      Decl ''isRemovingAccessCodeAllowed'' False TBoolean,
      Decl ''isLinkedTerminalEnabled'' False TBoolean,
      Decl ''supportedEncryptionModes'' False (TTuple [EncryptionMode]),
      Decl ''isPermanentWallet'' False TBoolean,
      Decl ''isOverwritingIssuerExtraDataRestricted'' False TBoolean,
      Decl ''defaultSigningMethods'' True SigningMethod,
      Decl ''defaultCurve'' True EllipticCurve,
      Decl ''isIssuerDataProtectedAgainstReplay'' False TBoolean,
      Decl ''isSelectBlockchainAllowed'' False TBoolean]"

definition Attestation :: ty where
  "Attestation = TObj
     [Decl ''cardKeyAttestation'' False Status,
      Decl ''walletKeysAttestation'' False Status,
      Decl ''firmwareAttestation'' False Status,
      Decl ''cardUniquenessAttestation'' False Status]"

definition Card :: ty where
  "Card = TObj
     [Decl ''cardId'' False TString,
      Decl ''batchId'' False TString,
      Decl ''cardPublicKey'' False Data,
      Decl ''firmwareVersion'' False FirmwareVersion,
      Decl ''manufacturer'' False Manufacturer,
      Decl ''issuer'' False Issuer,
      Decl ''settings'' False Settings,
      Decl ''linkedTerminalStatus'' False LinkedTerminalStatus,
      Decl ''isPasscodeSet'' True TBoolean,
      Decl ''supportedCurves'' False (TTuple [EllipticCurve]),
      Decl ''wallets'' True (TArray Wallet),
      Decl ''attestation'' False Attestation,
      Decl ''health'' True TNumber,
      Decl ''remainingSignatures'' True TNumber]"

definition NFCStatusResponse :: ty where
  "NFCStatusResponse = TObj
     [Decl ''enabled'' False TBoolean,
      Decl ''support'' False TBoolean]"

definition Events :: ty where
  "Events = TLit ''NFCStateChange''"

definition EventCallback :: ty where
  "EventCallback = TObj [Decl ''enabled'' False TBoolean]"

definition Message :: ty where
  "Message = TObj
     [Decl ''body'' True TString,
      Decl ''header'' True TString]"

definition ReadIssuerDataResponse :: ty where
  "ReadIssuerDataResponse = TObj
     [Decl ''cardId'' False TString,
      Decl ''userData'' False Data,
      Decl ''userProtectedData'' False Data,
      Decl ''userCounter'' False TNumber,
      Decl ''userProtectedCounter'' False TNumber]"

definition WriteIssuerDataResponse :: ty where
  "WriteIssuerDataResponse = TObj [Decl ''cardId'' False TString]"

definition WriteIssuerExtraDataResponse :: ty where
  "WriteIssuerExtraDataResponse = TObj [Decl ''cardId'' False TString]"

definition WriteUserDataResponse :: ty where
  "WriteUserDataResponse = TObj [Decl ''cardId'' False TString]"

definition WriteUserProtectedDataResponse :: ty where
  "WriteUserProtectedDataResponse = TObj [Decl ''cardId'' False TString]"

definition ReadIssuerExtraDataResponse :: ty where
  "ReadIssuerExtraDataResponse = TObj
     [Decl ''cardId'' False TString,
      Decl ''size'' True TNumber,
      Decl ''issuerData'' True Data]"

definition ReadUserDataResponse :: ty where
  "ReadUserDataResponse = TObj
     [Decl ''cardId'' False TString,
      Decl ''userData'' False Data,
      Decl ''userProtectedData'' False Data,
      Decl ''userCounter'' False TNumber,
      Decl ''userProtectedCounter'' False TNumber]"

definition CreateWalletResponse :: ty where
  "CreateWalletResponse = TObj
     [Decl ''cardId'' False TString,
      Decl ''wallet'' False Wallet]"

definition SuccessResponse :: ty where
  "SuccessResponse = TObj [Decl ''cardId'' False TString]"

definition WalletConfig :: ty where
  "WalletConfig = TObj
     [Decl ''isReusable'' True TBoolean,
      Decl ''prohibitPurgeWallet'' True TBoolean,
      Decl ''EllipticCurve'' True EllipticCurve,
      Decl ''signingMethods'' True SigningMethod]"

definition FileSettingsChange :: ty where
  "FileSettingsChange = TObj
     [Decl ''fileIndex'' False TNumber,
      Decl ''settings'' False FileSettings]"

definition File :: ty where
  "File = TObj
     [Decl ''data'' False Data,
      Decl ''startingSignature'' True Data,
      Decl ''finalizingSignature'' True Data,
      Decl ''counter'' True TNumber,
      Decl ''issuerPublicKey'' True Data,
      Decl ''requiredPasscode'' True TBoolean,
      Decl ''minFirmwareVersion'' True FirmwareVersion,
      Decl ''maxFirmwareVersion'' True FirmwareVersion]"

definition ReadFilesResponse :: ty where
  "ReadFilesResponse = TObj [Decl ''files'' False (TArray File)]"

definition WriteFilesResponse :: ty where
  "WriteFilesResponse = TObj
     [Decl ''cardId'' False TString,
      Decl ''fileIndex'' True TNumber]"

definition DeleteFilesResponse :: ty where
  "DeleteFilesResponse = TObj [Decl ''cardId'' False TString]"

definition ChangeFilesSettingsResponse :: ty where
  "ChangeFilesSettingsResponse = TObj [Decl ''cardId'' False TString]"

subsection \<open>The interface \<^verbatim>\<open>TangemSdk\<close>\<close>

definition scanCard_sig :: operation where
  "scanCard_sig = Operation ''scanCard''
     [Decl ''initialMessage'' True Message]
     (TPromise Card)"

definition sign_sig :: operation where
  "sign_sig = Operation ''sign''
     [Decl ''hashes'' False (TArray Data),
      Decl ''walletPublicKey'' False Data,
      Decl ''cardId'' False TString,
      Decl ''hdPath'' True DerivationPath,
      Decl ''initialMessage'' True Message]
     (TPromise (TTuple [Data]))"

definition readIssuerData_sig :: operation where
  "readIssuerData_sig = Operation ''readIssuerData''
     [Decl ''cardId'' True TString,
      Decl ''initialMessage'' True Message]
     (TPromise ReadIssuerDataResponse)"

definition writeIssuerData_sig :: operation where
  "writeIssuerData_sig = Operation ''writeIssuerData''
     [Decl ''issuerData'' False Data,
      Decl ''issuerDataSignature'' False Data,
      Decl ''issuerDataCounter'' True TNumber,
      Decl ''cardId'' True TString,
      Decl ''initialMessage'' True Message]
     (TPromise WriteIssuerDataResponse)"

definition readIssuerExtraData_sig :: operation where
  "readIssuerExtraData_sig = Operation ''readIssuerExtraData''
     [Decl ''cardId'' True TString,
      Decl ''initialMessage'' True Message]
     (TPromise ReadIssuerExtraDataResponse)"

definition writeIssuerExtraData_sig :: operation where
  "writeIssuerExtraData_sig = Operation ''writeIssuerExtraData''
     [Decl ''issuerData'' False Data,
      Decl ''startingSignature'' False Data,
      Decl ''finalizingSignature'' False Data,
      Decl ''issuerDataCounter'' True TNumber,
      Decl ''cardId'' True TString,
      Decl ''initialMessage'' True Message]
     (TPromise WriteIssuerExtraDataResponse)"

definition readUserData_sig :: operation where
  "readUserData_sig = Operation ''readUserData''
     [Decl ''cardId'' True TString,
      Decl ''initialMessage'' True Message]
     (TPromise ReadUserDataResponse)"

definition writeUserData_sig :: operation where
  "writeUserData_sig = Operation ''writeUserData''
     [Decl ''userData'' False Data,
      Decl ''userCounter'' False TNumber,
      Decl ''cardId'' True TString,
      Decl ''initialMessage'' True Message]
     (TPromise WriteUserDataResponse)"

definition writeUserProtectedData_sig :: operation where
  "writeUserProtectedData_sig = Operation ''writeUserProtectedData''
     [Decl ''userProtectedData'' False Data,
      Decl ''userProtectedCounter'' False Data,
      Decl ''cardId'' True TString,
      Decl ''initialMessage'' True Message]
     (TPromise WriteUserProtectedDataResponse)"

definition createWallet_sig :: operation where
  "createWallet_sig = Operation ''createWallet''
     [Decl ''curve'' False EllipticCurve,
      Decl ''isPermanent'' False TBoolean,
      Decl ''cardId'' False TString,
      Decl ''initialMessage'' True Message]
     (TPromise CreateWalletResponse)"

definition purgeWallet_sig :: operation where
  "purgeWallet_sig = Operation ''purgeWallet''
     [Decl ''walletPublicKey'' False Data,
      Decl ''cardId'' False TString,
      Decl ''initialMessage'' True Message]
     (TPromise SuccessResponse)"

definition setAccessCode_sig :: operation where
  "setAccessCode_sig = Operation ''setAccessCode''
     [Decl ''accessCode'' False TStringObj,
      Decl ''cardId'' False TString,
      Decl ''initialMessage'' True Message]
     (TPromise SuccessResponse)"

definition setPasscode_sig :: operation where
  "setPasscode_sig = Operation ''setPasscode''
     [Decl ''passcode'' False TStringObj,
      Decl ''cardId'' False TString,
      Decl ''initialMessage'' True Message]
     (TPromise SuccessResponse)"

definition readFiles_sig :: operation where
  "readFiles_sig = Operation ''readFiles''
     [Decl ''readPrivateFiles'' False TBoolean,
      Decl ''indices'' True (TArray TNumber),
      Decl ''cardId'' True TString,
      Decl ''initialMessage'' True Message]
     (TPromise ReadFilesResponse)"

definition writeFiles_sig :: operation where
  "writeFiles_sig = Operation ''writeFiles''
     [Decl ''files'' False (TArray File),
      Decl ''cardId'' True TString,
      Decl ''initialMessage'' True Message]
     (TPromise WriteFilesResponse)"

definition deleteFiles_sig :: operation where
  "deleteFiles_sig = Operation ''deleteFiles''
     [Decl ''indicesToDelete'' True (TArray TNumber),
      Decl ''cardId'' True TString,
      Decl ''initialMessage'' True Message]
     (TPromise DeleteFilesResponse)"

definition changeFilesSettings_sig :: operation where
  "changeFilesSettings_sig = Operation ''changeFilesSettings''
     [Decl ''changes'' False FileSettingsChange,
      Decl ''cardId'' True TStringObj,
      Decl ''initialMessage'' True Message]
     (TPromise ChangeFilesSettingsResponse)"

definition startSession_sig :: operation where
  "startSession_sig = Operation ''startSession'' [] (TPromise TVoid)"

definition stopSession_sig :: operation where
  "stopSession_sig = Operation ''stopSession'' [] (TPromise TVoid)"

definition getNFCStatus_sig :: operation where
  "getNFCStatus_sig = Operation ''getNFCStatus'' [] (TPromise NFCStatusResponse)"

definition on_sig :: operation where
  "on_sig = Operation ''on''
     [Decl ''eventName'' False Events,
      Decl ''handler'' False (TFun [Decl ''state'' False EventCallback] TVoid)]
     TVoid"

definition removeListener_sig :: operation where
  "removeListener_sig = Operation ''removeListener''
     [Decl ''eventName'' False Events,
      Decl ''handler'' False (TFun [Decl ''state'' False EventCallback] TVoid)]
     TVoid"

definition TangemSdk :: "operation list" where
  "TangemSdk =
     [scanCard_sig, sign_sig, readIssuerData_sig, writeIssuerData_sig,
      readIssuerExtraData_sig, writeIssuerExtraData_sig, readUserData_sig,
      writeUserData_sig, writeUserProtectedData_sig, createWallet_sig,
      purgeWallet_sig, setAccessCode_sig, setPasscode_sig, readFiles_sig,
      writeFiles_sig, deleteFiles_sig, changeFilesSettings_sig, startSession_sig,
      stopSession_sig, getNFCStatus_sig, on_sig, removeListener_sig]"

subsection \<open>Reading the declarations\<close>

definition lookup_operation :: "string \<Rightarrow> operation option" where
  "lookup_operation n = find (\<lambda>m. opname m = n) TangemSdk"

definition param_named :: "string \<Rightarrow> operation \<Rightarrow> decl option" where
  "param_named n m = find (\<lambda>d. dname d = n) (params m)"

fun members :: "ty \<Rightarrow> decl list" where
  "members (TObj ds) = ds"
| "members _ = []"

definition member_named :: "string \<Rightarrow> ty \<Rightarrow> decl option" where
  "member_named n t = find (\<lambda>d. dname d = n) (members t)"

text \<open>An operation is asynchronous when it returns a promise; the promise resolves
  to a value of the type argument.\<close>

fun resolves_to :: "operation \<Rightarrow> ty option" where
  "resolves_to (Operation n ps (TPromise t)) = Some t"
| "resolves_to _ = None"

subsection \<open>Values of a declared type\<close>

text \<open>
  \<open>conforms t v\<close>: the value \<open>v\<close> has the type \<open>t\<close>. A value of an enum type is the
  value of one of its members. An array has any number of elements, a tuple exactly
  as many as it has element types. An object has a type when every declared member
  is there with a value of its type; a member marked \<^verbatim>\<open>?\<close> may be missing or
  \<^verbatim>\<open>undefined\<close>; further properties are allowed. \<^verbatim>\<open>null\<close> has none of the declared
  types. A primitive value has the wrapper type of its kind. Promises and functions
  are not data values.
\<close>

fun conforms :: "ty \<Rightarrow> val \<Rightarrow> bool"
  and conforms_elems :: "ty \<Rightarrow> val list \<Rightarrow> bool"
  and conforms_tuple :: "ty list \<Rightarrow> val list \<Rightarrow> bool"
  and conforms_decl :: "decl \<Rightarrow> (string \<times> val) list \<Rightarrow> bool"
  and conforms_decls :: "decl list \<Rightarrow> (string \<times> val) list \<Rightarrow> bool"
where
  "conforms TString v = (case v of VStr _ \<Rightarrow> True | _ \<Rightarrow> False)"
| "conforms TNumber v = (case v of VNum _ \<Rightarrow> True | _ \<Rightarrow> False)"
| "conforms TBoolean v = (case v of VBool _ \<Rightarrow> True | _ \<Rightarrow> False)"
| "conforms TVoid v = (v = VUndefined)"
| "conforms TStringObj v = (case v of VStr _ \<Rightarrow> True | _ \<Rightarrow> False)"
| "conforms TNumberObj v = (case v of VNum _ \<Rightarrow> True | _ \<Rightarrow> False)"
| "conforms TBooleanObj v = (case v of VBool _ \<Rightarrow> True | _ \<Rightarrow> False)"
| "conforms TDate v = (case v of VDate _ \<Rightarrow> True | _ \<Rightarrow> False)"
| "conforms (TLit s) v = (v = VStr s)"
| "conforms (TEnum ms) v = (v \<in> set (map snd ms))"
| "conforms (TArray t) v = (case v of VArr xs \<Rightarrow> conforms_elems t xs | _ \<Rightarrow> False)"
| "conforms (TTuple ts) v = (case v of VArr xs \<Rightarrow> conforms_tuple ts xs | _ \<Rightarrow> False)"
| "conforms (TObj ds) v = (case v of VObj kvs \<Rightarrow> conforms_decls ds kvs | _ \<Rightarrow> False)"
| "conforms (TPromise t) v = False"
| "conforms (TFun ps t) v = False"
| "conforms_elems t [] = True"
| "conforms_elems t (x # xs) = (conforms t x \<and> conforms_elems t xs)"
| "conforms_tuple [] xs = (xs = [])"
| "conforms_tuple (t # ts) xs =
     (case xs of [] \<Rightarrow> False | x # xs' \<Rightarrow> conforms t x \<and> conforms_tuple ts xs')"
| "conforms_decl (Decl n opt t) kvs =
     (case map_of kvs n of
        None \<Rightarrow> opt
      | Some x \<Rightarrow> (opt \<and> x = VUndefined) \<or> conforms t x)"
| "conforms_decls [] kvs = True"
| "conforms_decls (d # ds) kvs = (conforms_decl d kvs \<and> conforms_decls ds kvs)"

text \<open>Reading a property of an object; anything else has no properties.\<close>

fun get_prop :: "val \<Rightarrow> string \<Rightarrow> val option" where
  "get_prop (VObj kvs) n = map_of kvs n"
| "get_prop _ n = None"

fun elements :: "val \<Rightarrow> val list option" where
  "elements (VArr xs) = Some xs"
| "elements _ = None"

text \<open>How an operation declares a parameter of a given name: not at all, as a required
  parameter, or marked \<^verbatim>\<open>?\<close>.\<close>

datatype presence = Absent | Required | Optional

definition param_presence :: "string \<Rightarrow> operation \<Rightarrow> presence" where
  "param_presence n m =
     (case param_named n m of
        None \<Rightarrow> Absent
      | Some d \<Rightarrow> if optional d then Optional else Required)"

subsection \<open>Example values\<close>

text \<open>The settings of a card, a wallet of a given curve, and a card that supports
  \<^verbatim>\<open>secp256k1\<close> and holds given wallets.\<close>

definition example_settings :: val where
  "example_settings = VObj
     [(''securityDelay'', VNum 3000),
      (''maxWalletsCount'', VNum 1),
      (''isSettingAccessCodeAllowed'', VBool True),
      (''isSettingPasscodeAllowed'', VBool True),
      (''isRemovingAccessCodeAllowed'', VBool False),
      (''isLinkedTerminalEnabled'', VBool True),
      (''supportedEncryptionModes'', VArr [VStr ''strong'']),
      (''isPermanentWallet'', VBool False),
      (''isOverwritingIssuerExtraDataRestricted'', VBool False),
      (''isIssuerDataProtectedAgainstReplay'', VBool True),
      (''isSelectBlockchainAllowed'', VBool True)]"

definition example_wallet :: "string \<Rightarrow> val" where
  "example_wallet cv = VObj
     [(''publicKey'', VStr ''02F1''),
      (''curve'', VStr cv),
      (''settings'', VObj [(''isPermanent'', VBool False)]),
      (''index'', VNum 0)]"

definition example_card :: "val list \<Rightarrow> val" where
  "example_card ws = VObj
     [(''cardId'', VStr ''CB79000000018201''),
      (''batchId'', VStr ''0079''),
      (''cardPublicKey'', VStr ''04AB''),
      (''firmwareVersion'', VObj
         [(''hotFix'', VNum 0), (''major'', VNum 4), (''minor'', VNum 12),
          (''type'', VStr ''r''), (''version'', VStr ''4.12r'')]),
      (''manufacturer'', VObj [(''name'', VStr ''TANGEM''), (''manufactureDate'', VDate 0)]),
      (''issuer'', VObj [(''name'', VStr ''TANGEM SDK''), (''publicKey'', VStr ''03C4'')]),
      (''settings'', example_settings),
      (''linkedTerminalStatus'', VStr ''none''),
      (''supportedCurves'', VArr [VStr ''secp256k1'']),
      (''wallets'', VArr ws),
      (''attestation'', VObj
         [(''cardKeyAttestation'', VStr ''verified''),
          (''walletKeysAttestation'', VStr ''verified''),
          (''firmwareAttestation'', VStr ''skipped''),
          (''cardUniquenessAttestation'', VStr ''skipped'')])]"

section \<open>The card behind the interface\<close>

text \<open>
  \<^verbatim>\<open>types.ts\<close> declares the operations and holds no implementation of them: the calls
  are carried out by the native SDK and the card. What \<^verbatim>\<open>createWallet\<close>,
  \<^verbatim>\<open>purgeWallet\<close> and \<^verbatim>\<open>readFiles\<close> do is therefore taken from the specification
  (its sections 3, 4.1, 7 and 8). An operation acts on the card presented to the
  reader and either rejects or returns its response, with the card as the call
  leaves it; a rejected call leaves the card as it was.
\<close>

subsection \<open>Data\<close>

text \<open>The members of the enums \<^verbatim>\<open>EllipticCurve\<close> and \<^verbatim>\<open>FileSettings\<close>.\<close>

datatype elliptic_curve = Secp256k1 | Ed25519 | Secp256r1

datatype file_settings = Private | Public

text \<open>The records \<^verbatim>\<open>WalletSettings\<close> and \<^verbatim>\<open>Wallet\<close>, member by member; an optional
  member is an option.\<close>

record wallet_settings =
  isPermanent :: bool

record wallet =
  publicKey :: string
  chainCode :: "string option"
  curve :: elliptic_curve
  settings :: wallet_settings
  totalSignedHashes :: "int option"
  remainingSignatures :: "int option"
  index :: nat

text \<open>
  Modelled from the spec: a file as the card keeps it, which \<^verbatim>\<open>types.ts\<close> does not
  declare. The record \<^verbatim>\<open>File\<close> has no member for the settings of a file; the spec
  speaks of "files whose settings are Private", and \<^verbatim>\<open>FileSettingsChange\<close> sets the
  settings of the file at a \<^verbatim>\<open>fileIndex\<close>. So the card keeps, at each index, the
  \<^verbatim>\<open>File\<close> value and its settings.
\<close>

record stored_file =
  content :: val
  fileSettings :: file_settings

text \<open>
  Modelled from the spec: the state of a card, which \<^verbatim>\<open>types.ts\<close> shows only as the
  snapshot \<^verbatim>\<open>Card\<close>. Of the members of \<^verbatim>\<open>Card\<close> it holds those the operations below
  read or change: \<^verbatim>\<open>cardId\<close>, \<^verbatim>\<open>supportedCurves\<close> (any list of curves, those of one
  element among them), \<^verbatim>\<open>settings.maxWalletsCount\<close> and \<^verbatim>\<open>wallets\<close>; and the files.
\<close>

record card =
  cardId :: string
  supportedCurves :: "elliptic_curve list"
  maxWalletsCount :: nat
  wallets :: "wallet list"
  files :: "stored_file list"

text \<open>
  Modelled from the spec: the causes of a rejection, which \<^verbatim>\<open>types.ts\<close> does not
  declare (section 7: card mismatch, policy violation, resource exhaustion). The
  failures of the session itself (no NFC, no card, cancelled by the user) come before
  a card is presented and are not part of the model.
\<close>

datatype rejection =
    CardMismatch
  | CurveUnsupported
  | WalletSlotsExhausted
  | WalletNotFound
  | WalletIsPermanent
  | FileIndexOutOfRange

text \<open>The responses \<^verbatim>\<open>CreateWalletResponse\<close>, \<^verbatim>\<open>SuccessResponse\<close> and
  \<^verbatim>\<open>ReadFilesResponse\<close>, member by member.\<close>

record create_wallet_response =
  response_cardId :: string
  response_wallet :: wallet

record success_response =
  success_cardId :: string

record read_files_response =
  response_files :: "val list"

text \<open>The wallet and the responses of the model as values: a member that is not set is
  left out.\<close>

fun curve_val :: "elliptic_curve \<Rightarrow> val" where
  "curve_val Secp256k1 = VStr ''secp256k1''"
| "curve_val Ed25519 = VStr ''ed25519''"
| "curve_val Secp256r1 = VStr ''secp256r1''"

definition optional_member :: "string \<Rightarrow> val option \<Rightarrow> (string \<times> val) list" where
  "optional_member n v = (case v of None \<Rightarrow> [] | Some x \<Rightarrow> [(n, x)])"

definition wallet_val :: "wallet \<Rightarrow> val" where
  "wallet_val w = VObj
     ([(''publicKey'', VStr (publicKey w))]
      @ optional_member ''chainCode'' (map_option VStr (chainCode w))
      @ [(''curve'', curve_val (curve w)),
         (''settings'', VObj [(''isPermanent'', VBool (isPermanent (settings w)))])]
      @ optional_member ''totalSignedHashes'' (map_option VNum (totalSignedHashes w))
      @ optional_member ''remainingSignatures'' (map_option VNum (remainingSignatures w))
      @ [(''index'', VNum (int (index w)))])"

definition create_wallet_response_val :: "create_wallet_response \<Rightarrow> val" where
  "create_wallet_response_val r = VObj
     [(''cardId'', VStr (response_cardId r)), (''wallet'', wallet_val (response_wallet r))]"

definition read_files_response_val :: "read_files_response \<Rightarrow> val" where
  "read_files_response_val r = VObj [(''files'', VArr (response_files r))]"

subsection \<open>Operations\<close>

text \<open>
  Modelled from the spec: the pin of an operation to a card, whose implementation is
  not in \<^verbatim>\<open>types.ts\<close> (section 4.1: \<^verbatim>\<open>cardId\<close> pins the operation to a specific card,
  and the call is rejected when the wrong card is presented). A call without
  \<^verbatim>\<open>cardId\<close> accepts any card.
\<close>

definition pinned :: "string option \<Rightarrow> card \<Rightarrow> bool" where
  "pinned pin c = (case pin of None \<Rightarrow> True | Some i \<Rightarrow> i = cardId c)"

text \<open>
  Modelled from the spec: the index of a new wallet, which no code in \<^verbatim>\<open>types.ts\<close>
  computes. The spec fixes it so far: it is "assigned at creation", "unique per
  card", and 0 for the first wallet of a card. The model takes the least index that
  no wallet on the card uses; among the first \<open>n + 1\<close> indices one is not used by
  \<open>n\<close> wallets.
\<close>

definition fresh_index :: "nat list \<Rightarrow> nat" where
  "fresh_index used = hd (filter (\<lambda>i. i \<notin> set used) [0..<Suc (length used)])"

text \<open>
  Modelled from the spec: the wallet a card creates, which no code in \<^verbatim>\<open>types.ts\<close>
  builds. It has the requested curve, the requested \<^verbatim>\<open>isPermanent\<close> and the public
  key of the key pair the card has generated (\<open>key\<close>); its optional members are not
  set.
\<close>

definition new_wallet :: "string \<Rightarrow> elliptic_curve \<Rightarrow> bool \<Rightarrow> nat \<Rightarrow> wallet" where
  "new_wallet key cv perm i =
     \<lparr>publicKey = key, chainCode = None, curve = cv,
      settings = \<lparr>isPermanent = perm\<rparr>,
      totalSignedHashes = None, remainingSignatures = None, index = i\<rparr>"

text \<open>
  Modelled from the spec: \<^verbatim>\<open>createWallet(curve, isPermanent, cardId)\<close>, whose
  implementation is not in \<^verbatim>\<open>types.ts\<close>. It is rejected when the wrong card is
  presented, when "the requested curve is absent from supportedCurves" and when "the
  card's wallet slot count is exhausted"; otherwise the card holds one more wallet
  and the response echoes the \<^verbatim>\<open>cardId\<close> and carries the wallet.
\<close>

definition createWallet ::
  "string \<Rightarrow> elliptic_curve \<Rightarrow> bool \<Rightarrow> string \<Rightarrow> card
     \<Rightarrow> rejection + (card \<times> create_wallet_response)" where
  "createWallet key cv perm pin c =
     (if \<not> pinned (Some pin) c then Inl CardMismatch
      else if cv \<notin> set (supportedCurves c) then Inl CurveUnsupported
      else if maxWalletsCount c \<le> length (wallets c) then Inl WalletSlotsExhausted
      else
        let w = new_wallet key cv perm (fresh_index (map index (wallets c)))
        in Inr (c\<lparr>wallets := wallets c @ [w]\<rparr>,
                \<lparr>response_cardId = cardId c, response_wallet = w\<rparr>))"

text \<open>
  Modelled from the spec: \<^verbatim>\<open>purgeWallet(walletPublicKey, cardId)\<close>, whose
  implementation is not in \<^verbatim>\<open>types.ts\<close>. It is "rejected if the wallet's isPermanent
  setting is true"; otherwise the wallet is absent from the card afterwards. A key
  that no wallet of the card has is rejected as well.
\<close>

definition purgeWallet ::
  "string \<Rightarrow> string \<Rightarrow> card \<Rightarrow> rejection + (card \<times> success_response)" where
  "purgeWallet walletPublicKey pin c =
     (if \<not> pinned (Some pin) c then Inl CardMismatch
      else
        (case find (\<lambda>w. publicKey w = walletPublicKey) (wallets c) of
           None \<Rightarrow> Inl WalletNotFound
         | Some w \<Rightarrow>
             if isPermanent (settings w) then Inl WalletIsPermanent
             else Inr (c\<lparr>wallets := filter (\<lambda>w. publicKey w \<noteq> walletPublicKey) (wallets c)\<rparr>,
                       \<lparr>success_cardId = cardId c\<rparr>)))"

text \<open>
  Modelled from the spec: when an index of a list of file indices is in range, which
  no code in \<^verbatim>\<open>types.ts\<close> decides. The files of a card are numbered from 0.
\<close>

definition in_range :: "int \<Rightarrow> 'a list \<Rightarrow> bool" where
  "in_range i xs = (0 \<le> i \<and> i < int (length xs))"

text \<open>
  Modelled from the spec: \<^verbatim>\<open>readFiles(readPrivateFiles, indices?, cardId?)\<close>, whose
  implementation is not in \<^verbatim>\<open>types.ts\<close>. With \<^verbatim>\<open>readPrivateFiles = false\<close> it "must
  exclude files whose settings are Private"; "index lists, when given, restrict the
  operation to exactly those indices and fail if any index is out of range".
\<close>

definition readFiles ::
  "bool \<Rightarrow> int list option \<Rightarrow> string option \<Rightarrow> card \<Rightarrow> rejection + read_files_response" where
  "readFiles readPrivateFiles indices pin c =
     (if \<not> pinned pin c then Inl CardMismatch
      else
        (case indices of
           None \<Rightarrow>
             Inr \<lparr>response_files = map content
                   (filter (\<lambda>f. readPrivateFiles \<or> fileSettings f \<noteq> Private) (files c))\<rparr>
         | Some ixs \<Rightarrow>
             if list_all (\<lambda>i. in_range i (files c)) ixs
             then Inr \<lparr>response_files = map content
                   (filter (\<lambda>f. readPrivateFiles \<or> fileSettings f \<noteq> Private)
                      (map (\<lambda>i. files c ! nat i) ixs))\<rparr>
             else Inl FileIndexOutOfRange))"

subsection \<open>Sequences of calls\<close>

text \<open>
  Modelled from the spec: a call of one of the two wallet operations, with the
  arguments of the operation (and the key the card generates, for a creation).
\<close>

datatype wallet_call =
    CreateWallet string elliptic_curve bool string
  | PurgeWallet string string

text \<open>
  Modelled from the spec: the card after a call (section 7: "an operation either
  fully completes or fully fails", so a rejected call leaves the card unchanged).
\<close>

fun after_call :: "card \<Rightarrow> wallet_call \<Rightarrow> card" where
  "after_call c (CreateWallet key cv perm pin) =
     (case createWallet key cv perm pin c of Inl e \<Rightarrow> c | Inr (c', r) \<Rightarrow> c')"
| "after_call c (PurgeWallet key pin) =
     (case purgeWallet key pin c of Inl e \<Rightarrow> c | Inr (c', r) \<Rightarrow> c')"

text \<open>Modelled from the spec: the card after a sequence of calls, one after the other.\<close>

definition after_calls :: "card \<Rightarrow> wallet_call list \<Rightarrow> card" where
  "after_calls c calls = foldl after_call c calls"


subsection \<open>Example cards\<close>

text \<open>The card of the spec's scenario: it supports \<^verbatim>\<open>Secp256k1\<close> and has no wallet. And
  a card with three files, the second of them private.\<close>

definition blank_card :: card where
  "blank_card =
     \<lparr>cardId = ''CB79000000018201'', supportedCurves = [Secp256k1], maxWalletsCount = 1,
      wallets = [], files = []\<rparr>"

definition card_with_files :: card where
  "card_with_files = blank_card
     \<lparr>files :=
        [\<lparr>content = VObj [(''data'', VStr ''0A'')], fileSettings = Public\<rparr>,
         \<lparr>content = VObj [(''data'', VStr ''0B'')], fileSettings = Private\<rparr>,
         \<lparr>content = VObj [(''data'', VStr ''0C'')], fileSettings = Public\<rparr>]\<rparr>"

section \<open>Properties of the declarations\<close>

subsection \<open>Auxiliary facts\<close>

lemmas sig_defs =
  scanCard_sig_def sign_sig_def readIssuerData_sig_def writeIssuerData_sig_def
  readIssuerExtraData_sig_def writeIssuerExtraData_sig_def readUserData_sig_def
  writeUserData_sig_def writeUserProtectedData_sig_def createWallet_sig_def
  purgeWallet_sig_def setAccessCode_sig_def setPasscode_sig_def readFiles_sig_def
  writeFiles_sig_def deleteFiles_sig_def changeFilesSettings_sig_def
  startSession_sig_def stopSession_sig_def getNFCStatus_sig_def on_sig_def
  removeListener_sig_def

lemma conforms_decls_required:
  "conforms_decls ds kvs \<Longrightarrow> Decl n False t \<in> set ds \<Longrightarrow>
     \<exists>x. map_of kvs n = Some x \<and> conforms t x"
  by (induction ds) (auto split: option.splits)

lemma conforms_obj_required:
  "conforms (TObj ds) v \<Longrightarrow> Decl n False t \<in> set ds \<Longrightarrow>
     \<exists>x. get_prop v n = Some x \<and> conforms t x"
  by (cases v) (auto dest: conforms_decls_required)

lemma conforms_tuple1:
  "conforms (TTuple [t]) v \<Longrightarrow> \<exists>x. v = VArr [x] \<and> conforms t x"
  by (cases v) (auto split: list.splits)

lemma conforms_boolean: "conforms TBoolean v \<Longrightarrow> \<exists>b. v = VBool b"
  by (cases v) auto

lemmas response_defs =
  ReadIssuerDataResponse_def WriteIssuerDataResponse_def WriteIssuerExtraDataResponse_def
  WriteUserDataResponse_def WriteUserProtectedDataResponse_def
  ReadIssuerExtraDataResponse_def ReadUserDataResponse_def CreateWalletResponse_def
  SuccessResponse_def ReadFilesResponse_def WriteFilesResponse_def DeleteFilesResponse_def
  ChangeFilesSettingsResponse_def NFCStatusResponse_def Card_def

lemma in_TangemSdk:
  "m \<in> set TangemSdk \<longleftrightarrow>
     m = scanCard_sig \<or> m = sign_sig \<or> m = readIssuerData_sig \<or> m = writeIssuerData_sig \<or>
     m = readIssuerExtraData_sig \<or> m = writeIssuerExtraData_sig \<or> m = readUserData_sig \<or>
     m = writeUserData_sig \<or> m = writeUserProtectedData_sig \<or> m = createWallet_sig \<or>
     m = purgeWallet_sig \<or> m = setAccessCode_sig \<or> m = setPasscode_sig \<or> m = readFiles_sig \<or>
     m = writeFiles_sig \<or> m = deleteFiles_sig \<or> m = changeFilesSettings_sig \<or>
     m = startSession_sig \<or> m = stopSession_sig \<or> m = getNFCStatus_sig \<or> m = on_sig \<or>
     m = removeListener_sig"
  by (simp add: TangemSdk_def)

lemma example_settings_conforms: "conforms Settings example_settings"
  by (simp add: Settings_def example_settings_def EncryptionMode_def SigningMethod_def
      EllipticCurve_def)

lemma example_wallet_conforms:
  "conforms EllipticCurve (VStr cv) \<Longrightarrow> conforms Wallet (example_wallet cv)"
  by (simp add: Wallet_def example_wallet_def WalletSettings_def Data_def)

lemma example_card_conforms:
  "conforms_elems Wallet ws \<Longrightarrow> conforms Card (example_card ws)"
  using example_settings_conforms
  by (simp add: Card_def example_card_def Data_def FirmwareVersion_def FirmwareType_def
      Manufacturer_def Issuer_def LinkedTerminalStatus_def EllipticCurve_def
      Attestation_def Status_def)

subsection \<open>The NFC status\<close>

text \<open>
  C7, as stated, fails: \<^verbatim>\<open>getNFCStatus\<close> is declared to return
  \<^verbatim>\<open>Promise<NFCStatusResponse>\<close>, so the call is asynchronous and the status record
  itself is not a value of the return type.
\<close>

theorem getNFCStatus_is_async:
  "lookup_operation ''getNFCStatus'' = Some getNFCStatus_sig
   \<and> ret getNFCStatus_sig = TPromise NFCStatusResponse
   \<and> \<not> conforms (ret getNFCStatus_sig)
          (VObj [(''enabled'', VBool False), (''support'', VBool True)])"
  by (simp add: lookup_operation_def TangemSdk_def sig_defs)

text \<open>
  C7 (amended): \<^verbatim>\<open>getNFCStatus\<close> takes no parameter and returns a promise of an
  \<^verbatim>\<open>NFCStatusResponse\<close>; every value of that type carries the boolean flags
  \<^verbatim>\<open>enabled\<close> and \<^verbatim>\<open>support\<close>.
\<close>

theorem getNFCStatus_snapshot:
  "params getNFCStatus_sig = []
   \<and> resolves_to getNFCStatus_sig = Some NFCStatusResponse
   \<and> (conforms NFCStatusResponse v \<longrightarrow>
        (\<exists>e s. get_prop v ''enabled'' = Some (VBool e)
             \<and> get_prop v ''support'' = Some (VBool s)))"
proof -
  have "\<exists>e s. get_prop v ''enabled'' = Some (VBool e) \<and> get_prop v ''support'' = Some (VBool s)"
    if c: "conforms NFCStatusResponse v"
  proof -
    from c have c': "conforms (TObj [Decl ''enabled'' False TBoolean, Decl ''support'' False TBoolean]) v"
      by (simp add: NFCStatusResponse_def)
    have "\<exists>x. get_prop v ''enabled'' = Some x \<and> conforms TBoolean x"
      by (rule conforms_obj_required [OF c']) simp
    then obtain e where "get_prop v ''enabled'' = Some (VBool e)"
      using conforms_boolean by blast
    moreover have "\<exists>x. get_prop v ''support'' = Some x \<and> conforms TBoolean x"
      by (rule conforms_obj_required [OF c']) simp
    then obtain s where "get_prop v ''support'' = Some (VBool s)"
      using conforms_boolean by blast
    ultimately show ?thesis by blast
  qed
  then show ?thesis
    by (simp add: getNFCStatus_sig_def)
qed

text \<open>C7, witness: the status of a device whose NFC radio is there but switched off.\<close>

theorem getNFCStatus_snapshot_witness:
  "conforms NFCStatusResponse (VObj [(''enabled'', VBool False), (''support'', VBool True)])
   \<and> get_prop (VObj [(''enabled'', VBool False), (''support'', VBool True)]) ''enabled''
       = Some (VBool False)"
  using getNFCStatus_snapshot [of "VObj [(''enabled'', VBool False), (''support'', VBool True)]"]
  by (simp add: NFCStatusResponse_def)

subsection \<open>The \<^verbatim>\<open>cardId\<close> of a response\<close>

text \<open>
  C1, as stated, fails: \<^verbatim>\<open>readFiles\<close> resolves to a \<^verbatim>\<open>ReadFilesResponse\<close>, whose only
  member is \<^verbatim>\<open>files\<close>, and a response without \<^verbatim>\<open>cardId\<close> has that type. Nor is there
  a \<^verbatim>\<open>cardId\<close> in what \<^verbatim>\<open>sign\<close> (a tuple of signatures), \<^verbatim>\<open>startSession\<close> and
  \<^verbatim>\<open>stopSession\<close> (nothing) and \<^verbatim>\<open>getNFCStatus\<close> (the two flags) resolve to.
\<close>

theorem readFiles_response_without_cardId:
  "readFiles_sig \<in> set TangemSdk
   \<and> resolves_to readFiles_sig = Some ReadFilesResponse
   \<and> member_named ''cardId'' ReadFilesResponse = None
   \<and> conforms ReadFilesResponse (VObj [(''files'', VArr [])])
   \<and> get_prop (VObj [(''files'', VArr [])]) ''cardId'' = None
   \<and> resolves_to sign_sig = Some (TTuple [Data])
   \<and> member_named ''cardId'' (TTuple [Data]) = None
   \<and> resolves_to startSession_sig = Some TVoid
   \<and> resolves_to stopSession_sig = Some TVoid
   \<and> member_named ''cardId'' TVoid = None
   \<and> resolves_to getNFCStatus_sig = Some NFCStatusResponse
   \<and> member_named ''cardId'' NFCStatusResponse = None"
  by (simp add: in_TangemSdk sig_defs ReadFilesResponse_def NFCStatusResponse_def
      member_named_def)

text \<open>
  C1 (amended): every asynchronous operation of \<^verbatim>\<open>TangemSdk\<close> other than \<^verbatim>\<open>sign\<close>,
  \<^verbatim>\<open>readFiles\<close>, \<^verbatim>\<open>startSession\<close>, \<^verbatim>\<open>stopSession\<close> and \<^verbatim>\<open>getNFCStatus\<close> resolves to
  a record that declares a required member \<^verbatim>\<open>cardId\<close> of type \<^verbatim>\<open>string\<close>.
\<close>

theorem response_declares_cardId:
  assumes "m \<in> set TangemSdk"
    and "resolves_to m = Some t"
    and "opname m \<notin> set [''sign'', ''readFiles'', ''startSession'', ''stopSession'', ''getNFCStatus'']"
  shows "member_named ''cardId'' t = Some (Decl ''cardId'' False TString)"
  using assms unfolding in_TangemSdk
  by (elim disjE) (auto simp add: sig_defs response_defs member_named_def)

text \<open>C1, witness: \<^verbatim>\<open>createWallet\<close> and its \<^verbatim>\<open>CreateWalletResponse\<close>.\<close>

theorem response_declares_cardId_witness:
  "createWallet_sig \<in> set TangemSdk
   \<and> resolves_to createWallet_sig = Some CreateWalletResponse
   \<and> opname createWallet_sig \<notin> set [''sign'', ''readFiles'', ''startSession'', ''stopSession'', ''getNFCStatus'']
   \<and> member_named ''cardId'' CreateWalletResponse = Some (Decl ''cardId'' False TString)"
proof -
  have a: "createWallet_sig \<in> set TangemSdk"
    by (simp add: in_TangemSdk)
  have b: "resolves_to createWallet_sig = Some CreateWalletResponse"
    by (simp add: createWallet_sig_def)
  have c: "opname createWallet_sig \<notin> set [''sign'', ''readFiles'', ''startSession'', ''stopSession'', ''getNFCStatus'']"
    by (simp add: createWallet_sig_def)
  from response_declares_cardId [OF a b c] a b c show ?thesis by simp
qed

subsection \<open>The result of \<^verbatim>\<open>sign\<close>\<close>

text \<open>
  C2: \<^verbatim>\<open>sign\<close> takes an array of hashes and is declared to resolve to the tuple type
  \<^verbatim>\<open>[Data]\<close>. For two hashes, an answer with two signatures does not have the
  declared type; an answer with one signature has it.
\<close>

theorem sign_two_hashes_one_signature:
  "lookup_operation ''sign'' = Some sign_sig
   \<and> param_named ''hashes'' sign_sig = Some (Decl ''hashes'' False (TArray Data))
   \<and> conforms (TArray Data) (VArr [VStr ''A1'', VStr ''B2''])
   \<and> resolves_to sign_sig = Some (TTuple [Data])
   \<and> \<not> conforms (TTuple [Data]) (VArr [VStr ''51'', VStr ''52''])
   \<and> conforms (TTuple [Data]) (VArr [VStr ''51''])"
  by (simp add: lookup_operation_def TangemSdk_def sig_defs param_named_def Data_def)

text \<open>Every value of the declared result type of \<^verbatim>\<open>sign\<close> holds exactly one signature.\<close>

lemma sign_result_single:
  "resolves_to sign_sig = Some t \<Longrightarrow> conforms t r \<Longrightarrow> \<exists>s. r = VArr [VStr s]"
proof -
  assume "resolves_to sign_sig = Some t" and c: "conforms t r"
  then have "t = TTuple [TString]"
    by (simp add: sign_sig_def Data_def)
  with c obtain x where "r = VArr [x]" "conforms TString x"
    using conforms_tuple1 by blast
  then show ?thesis
    by (cases x) simp_all
qed

subsection \<open>\<^verbatim>\<open>WalletConfig\<close> and \<^verbatim>\<open>createWallet\<close>\<close>

text \<open>
  C3, as stated, fails: the parameters of \<^verbatim>\<open>createWallet\<close> are a curve, a boolean, a
  string and a \<^verbatim>\<open>Message\<close>; none is a \<^verbatim>\<open>WalletConfig\<close>.
\<close>

theorem createWallet_takes_no_WalletConfig:
  "lookup_operation ''createWallet'' = Some createWallet_sig
   \<and> map dtype (params createWallet_sig) = [EllipticCurve, TBoolean, TString, Message]
   \<and> WalletConfig \<notin> set (map dtype (params createWallet_sig))"
  by (simp add: lookup_operation_def TangemSdk_def sig_defs WalletConfig_def Message_def
      EllipticCurve_def)

text \<open>
  C3 (amended): \<^verbatim>\<open>createWallet\<close> takes the curve and the flag \<^verbatim>\<open>isPermanent\<close> as
  parameters of their own, then the required \<^verbatim>\<open>cardId\<close> and the optional
  \<^verbatim>\<open>initialMessage\<close>; the record \<^verbatim>\<open>WalletConfig\<close> (optional members \<^verbatim>\<open>isReusable\<close>,
  \<^verbatim>\<open>prohibitPurgeWallet\<close>, \<^verbatim>\<open>EllipticCurve\<close>, \<^verbatim>\<open>signingMethods\<close>) is declared, and no
  operation of \<^verbatim>\<open>TangemSdk\<close> has a parameter of that type.
\<close>

theorem WalletConfig_not_a_parameter:
  assumes "m \<in> set TangemSdk"
  shows "WalletConfig \<notin> set (map dtype (params m))
    \<and> params createWallet_sig =
        [Decl ''curve'' False EllipticCurve, Decl ''isPermanent'' False TBoolean,
         Decl ''cardId'' False TString, Decl ''initialMessage'' True Message]
    \<and> WalletConfig = TObj
        [Decl ''isReusable'' True TBoolean, Decl ''prohibitPurgeWallet'' True TBoolean,
         Decl ''EllipticCurve'' True EllipticCurve, Decl ''signingMethods'' True SigningMethod]"
  using assms unfolding in_TangemSdk
  by (elim disjE) (simp_all add: sig_defs WalletConfig_def Message_def EllipticCurve_def
      Data_def DerivationPath_def File_def FileSettingsChange_def Events_def)

text \<open>C3, witness: the operation \<^verbatim>\<open>createWallet\<close> itself.\<close>

theorem WalletConfig_not_a_parameter_witness:
  "createWallet_sig \<in> set TangemSdk
   \<and> WalletConfig \<notin> set (map dtype (params createWallet_sig))"
proof -
  have a: "createWallet_sig \<in> set TangemSdk"
    by (simp add: in_TangemSdk)
  from WalletConfig_not_a_parameter [OF a] a show ?thesis
    by blast
qed

subsection \<open>The parameter \<^verbatim>\<open>cardId\<close>\<close>

text \<open>
  C6, as stated, fails: \<^verbatim>\<open>createWallet\<close> declares \<^verbatim>\<open>cardId: string\<close> without the
  optional mark.
\<close>

theorem createWallet_cardId_required:
  "createWallet_sig \<in> set TangemSdk
   \<and> param_named ''cardId'' createWallet_sig = Some (Decl ''cardId'' False TString)
   \<and> param_presence ''cardId'' createWallet_sig = Required"
  by (simp add: in_TangemSdk createWallet_sig_def param_named_def param_presence_def)

text \<open>
  C6 (amended): \<^verbatim>\<open>cardId\<close> is an optional parameter of the issuer-data and user-data
  reads and writes and of the four file operations; it is a required parameter of
  \<^verbatim>\<open>sign\<close>, \<^verbatim>\<open>createWallet\<close>, \<^verbatim>\<open>purgeWallet\<close>, \<^verbatim>\<open>setAccessCode\<close> and \<^verbatim>\<open>setPasscode\<close>;
  the remaining operations (\<^verbatim>\<open>scanCard\<close>, \<^verbatim>\<open>startSession\<close>, \<^verbatim>\<open>stopSession\<close>,
  \<^verbatim>\<open>getNFCStatus\<close>, \<^verbatim>\<open>on\<close>, \<^verbatim>\<open>removeListener\<close>) have no such parameter.
\<close>

theorem cardId_parameter_presence:
  assumes "m \<in> set TangemSdk"
  shows "param_presence ''cardId'' m =
     (if opname m \<in> set [''readIssuerData'', ''writeIssuerData'', ''readIssuerExtraData'',
            ''writeIssuerExtraData'', ''readUserData'', ''writeUserData'',
            ''writeUserProtectedData'', ''readFiles'', ''writeFiles'', ''deleteFiles'',
            ''changeFilesSettings'']
      then Optional
      else if opname m \<in> set [''sign'', ''createWallet'', ''purgeWallet'', ''setAccessCode'',
            ''setPasscode'']
      then Required
      else Absent)"
  using assms unfolding in_TangemSdk
  by (elim disjE) (simp_all add: sig_defs param_named_def param_presence_def)

text \<open>C6, witness: \<^verbatim>\<open>readFiles\<close>, where \<^verbatim>\<open>cardId\<close> is optional.\<close>

theorem cardId_parameter_presence_witness:
  "readFiles_sig \<in> set TangemSdk \<and> param_presence ''cardId'' readFiles_sig = Optional"
proof -
  have a: "readFiles_sig \<in> set TangemSdk"
    by (simp add: in_TangemSdk)
  from cardId_parameter_presence [OF a] a show ?thesis
    by (simp add: readFiles_sig_def)
qed

subsection \<open>One-element tuples\<close>

text \<open>
  C9: \<^verbatim>\<open>supportedCurves\<close> of \<^verbatim>\<open>Card\<close> and \<^verbatim>\<open>supportedEncryptionModes\<close> of \<^verbatim>\<open>Settings\<close>
  are declared as tuples of one element; every value of type \<^verbatim>\<open>Card\<close> has in
  \<^verbatim>\<open>supportedCurves\<close> an array of exactly one curve, and every value of type
  \<^verbatim>\<open>Settings\<close> has in \<^verbatim>\<open>supportedEncryptionModes\<close> an array of exactly one encryption
  mode.
\<close>

theorem one_element_tuples:
  "member_named ''supportedCurves'' Card
     = Some (Decl ''supportedCurves'' False (TTuple [EllipticCurve]))
   \<and> member_named ''supportedEncryptionModes'' Settings
     = Some (Decl ''supportedEncryptionModes'' False (TTuple [EncryptionMode]))
   \<and> (conforms Card c \<longrightarrow>
      (\<exists>x. get_prop c ''supportedCurves'' = Some (VArr [x]) \<and> conforms EllipticCurve x))
   \<and> (conforms Settings s \<longrightarrow>
      (\<exists>x. get_prop s ''supportedEncryptionModes'' = Some (VArr [x])
           \<and> conforms EncryptionMode x))"
proof (intro conjI impI)
  show "member_named ''supportedCurves'' Card
     = Some (Decl ''supportedCurves'' False (TTuple [EllipticCurve]))"
    by (simp add: member_named_def Card_def)
next
  show "member_named ''supportedEncryptionModes'' Settings
     = Some (Decl ''supportedEncryptionModes'' False (TTuple [EncryptionMode]))"
    by (simp add: member_named_def Settings_def)
next
  assume "conforms Card c"
  then have "\<exists>y. get_prop c ''supportedCurves'' = Some y \<and> conforms (TTuple [EllipticCurve]) y"
    unfolding Card_def by (rule conforms_obj_required) simp
  then show "\<exists>x. get_prop c ''supportedCurves'' = Some (VArr [x]) \<and> conforms EllipticCurve x"
    using conforms_tuple1 by blast
next
  assume "conforms Settings s"
  then have "\<exists>y. get_prop s ''supportedEncryptionModes'' = Some y
      \<and> conforms (TTuple [EncryptionMode]) y"
    unfolding Settings_def by (rule conforms_obj_required) simp
  then show "\<exists>x. get_prop s ''supportedEncryptionModes'' = Some (VArr [x])
      \<and> conforms EncryptionMode x"
    using conforms_tuple1 by blast
qed

text \<open>C9, witness: the example card and its settings.\<close>

theorem one_element_tuples_witness:
  "conforms Card (example_card [example_wallet ''secp256k1''])
   \<and> get_prop (example_card [example_wallet ''secp256k1'']) ''supportedCurves''
       = Some (VArr [VStr ''secp256k1''])
   \<and> conforms Settings example_settings
   \<and> get_prop example_settings ''supportedEncryptionModes'' = Some (VArr [VStr ''strong''])"
proof -
  have "conforms Wallet (example_wallet ''secp256k1'')"
    by (rule example_wallet_conforms) (simp add: EllipticCurve_def)
  then have "conforms Card (example_card [example_wallet ''secp256k1''])"
    by (intro example_card_conforms) simp
  with one_element_tuples [of "example_card [example_wallet ''secp256k1'']" example_settings]
    example_settings_conforms
  show ?thesis
    by (simp add: example_card_def example_settings_def)
qed

text \<open>Two curves, or none, are not a value of the declared type of \<^verbatim>\<open>supportedCurves\<close>.\<close>

lemma two_curves_not_typed:
  "\<not> conforms (TTuple [EllipticCurve]) (VArr [VStr ''secp256k1'', VStr ''ed25519''])
   \<and> \<not> conforms (TTuple [EllipticCurve]) (VArr [])"
  by simp

subsection \<open>The argument of \<^verbatim>\<open>changeFilesSettings\<close>\<close>

text \<open>
  C10: the parameter \<^verbatim>\<open>changes\<close> of \<^verbatim>\<open>changeFilesSettings\<close> has the type
  \<^verbatim>\<open>FileSettingsChange\<close>; a value of that type is not an array, and it carries one
  numeric \<^verbatim>\<open>fileIndex\<close> and one \<^verbatim>\<open>settings\<close> of type \<^verbatim>\<open>FileSettings\<close>.
\<close>

theorem changeFilesSettings_one_change:
  "param_named ''changes'' changeFilesSettings_sig
     = Some (Decl ''changes'' False FileSettingsChange)
   \<and> (conforms FileSettingsChange v \<longrightarrow>
        elements v = None
        \<and> (\<exists>i s. get_prop v ''fileIndex'' = Some (VNum i)
               \<and> get_prop v ''settings'' = Some s
               \<and> conforms FileSettings s))"
proof (intro conjI impI)
  show "param_named ''changes'' changeFilesSettings_sig
     = Some (Decl ''changes'' False FileSettingsChange)"
    by (simp add: param_named_def changeFilesSettings_sig_def)
next
  assume c: "conforms FileSettingsChange v"
  then show "elements v = None"
    by (cases v) (simp_all add: FileSettingsChange_def)
next
  assume "conforms FileSettingsChange v"
  then have c: "conforms (TObj [Decl ''fileIndex'' False TNumber,
      Decl ''settings'' False FileSettings]) v"
    by (simp add: FileSettingsChange_def)
  have "\<exists>x. get_prop v ''fileIndex'' = Some x \<and> conforms TNumber x"
    by (rule conforms_obj_required [OF c]) simp
  then obtain x where x: "get_prop v ''fileIndex'' = Some x" "conforms TNumber x"
    by blast
  from x(2) obtain i where "x = VNum i"
    by (cases x) simp_all
  moreover have "\<exists>s. get_prop v ''settings'' = Some s \<and> conforms FileSettings s"
    by (rule conforms_obj_required [OF c]) simp
  ultimately show "\<exists>i s. get_prop v ''fileIndex'' = Some (VNum i)
               \<and> get_prop v ''settings'' = Some s
               \<and> conforms FileSettings s"
    using x(1) by blast
qed

text \<open>C10, witness: one change is accepted, a list of two changes is not.\<close>

theorem changeFilesSettings_one_change_witness:
  "conforms FileSettingsChange (VObj [(''fileIndex'', VNum 2), (''settings'', VNum 1)])
   \<and> elements (VObj [(''fileIndex'', VNum 2), (''settings'', VNum 1)]) = None
   \<and> \<not> conforms FileSettingsChange
         (VArr [VObj [(''fileIndex'', VNum 2), (''settings'', VNum 1)],
                VObj [(''fileIndex'', VNum 3), (''settings'', VNum 0)]])"
  using changeFilesSettings_one_change [of "VObj [(''fileIndex'', VNum 2), (''settings'', VNum 1)]"]
  by (simp add: FileSettingsChange_def FileSettings_def)

section \<open>Properties of the card operations\<close>

subsection \<open>Auxiliary facts\<close>

lemma fresh_index_unused: "fresh_index used \<notin> set used"
proof -
  let ?cand = "filter (\<lambda>i. i \<notin> set used) [0..<Suc (length used)]"
  have "?cand \<noteq> []"
  proof
    assume "?cand = []"
    then have "{0..<Suc (length used)} \<subseteq> set used"
      unfolding filter_empty_conv by (auto simp del: upt_Suc)
    then have "card {0..<Suc (length used)} \<le> card (set used)"
      by (intro card_mono) simp_all
    moreover have "card (set used) \<le> length used"
      by (rule card_length)
    ultimately show False by simp
  qed
  then have "hd ?cand \<in> set ?cand"
    by (rule hd_in_set)
  then have "hd ?cand \<notin> set used"
    unfolding set_filter by blast
  then show ?thesis
    unfolding fresh_index_def .
qed

lemma fresh_index_empty: "fresh_index [] = 0"
  by (simp add: fresh_index_def)





text \<open>The wallet and the responses of the model have the declared types.\<close>

lemma curve_val_conforms: "conforms EllipticCurve (curve_val cv)"
  by (cases cv) (simp_all add: EllipticCurve_def)

lemma wallet_val_conforms: "conforms Wallet (wallet_val w)"
  using curve_val_conforms [of "curve w"]
  by (cases "chainCode w"; cases "totalSignedHashes w"; cases "remainingSignatures w")
    (simp_all add: Wallet_def wallet_val_def optional_member_def WalletSettings_def Data_def)

lemma create_wallet_response_val_conforms:
  "conforms CreateWalletResponse (create_wallet_response_val r)"
  using wallet_val_conforms [of "response_wallet r"]
  by (simp add: CreateWalletResponse_def create_wallet_response_val_def)

lemma read_files_response_val_conforms:
  "conforms_elems File (response_files r) \<Longrightarrow>
     conforms ReadFilesResponse (read_files_response_val r)"
  by (simp add: ReadFilesResponse_def read_files_response_val_def)

text \<open>The indices of the wallets of a card stay distinct ("each wallet's index unique
  within the card").\<close>

lemma createWallet_keeps_distinct:
  "distinct (map index (wallets c)) \<Longrightarrow> createWallet key cv perm pin c = Inr (c', r) \<Longrightarrow>
     distinct (map index (wallets c'))"
  using fresh_index_unused [of "map index (wallets c)"]
  by (auto simp: createWallet_def new_wallet_def Let_def split: if_splits)

lemma purgeWallet_keeps_distinct:
  "distinct (map index (wallets c)) \<Longrightarrow> purgeWallet key pin c = Inr (c', r) \<Longrightarrow>
     distinct (map index (wallets c'))"
  by (auto simp: purgeWallet_def distinct_map_filter split: if_splits option.splits)

lemma after_call_keeps_distinct:
  "distinct (map index (wallets c)) \<Longrightarrow> distinct (map index (wallets (after_call c call)))"
  by (cases call)
    (auto split: sum.splits dest: createWallet_keeps_distinct purgeWallet_keeps_distinct)

lemma wallet_indices_stay_distinct:
  "distinct (map index (wallets c)) \<Longrightarrow>
     distinct (map index (wallets (after_calls c calls)))"
  unfolding after_calls_def
  by (induction calls arbitrary: c) (simp_all add: after_call_keeps_distinct)

text \<open>The model agrees with the spec's scenario: on a card that supports \<^verbatim>\<open>Secp256k1\<close>
  and has no wallet, \<^verbatim>\<open>Ed25519\<close> is rejected; a \<^verbatim>\<open>Secp256k1\<close> wallet gets the index 0
  and is the only wallet of the card; after its purge the card has no wallet.\<close>

lemma spec_scenario:
  "createWallet ''02F1'' Ed25519 False ''CB79000000018201'' blank_card = Inl CurveUnsupported
   \<and> wallets (after_calls blank_card
        [CreateWallet ''02F1'' Secp256k1 False ''CB79000000018201''])
       = [new_wallet ''02F1'' Secp256k1 False 0]
   \<and> wallets (after_calls blank_card
        [CreateWallet ''02F1'' Secp256k1 False ''CB79000000018201'',
         PurgeWallet ''02F1'' ''CB79000000018201''])
       = []"
  by (simp add: blank_card_def createWallet_def purgeWallet_def pinned_def fresh_index_def
      new_wallet_def after_calls_def Let_def)

subsection \<open>Creating a wallet\<close>




subsection \<open>The curves of the wallets\<close>




subsection \<open>Reading files\<close>



text \<open>With \<^verbatim>\<open>readPrivateFiles = true\<close> all files are returned; an index out of range is
  rejected.\<close>

lemma readFiles_examples:
  "readFiles True None None card_with_files =
     Inr \<lparr>response_files = map content (files card_with_files)\<rparr>
   \<and> readFiles False (Some [3]) None card_with_files = Inl FileIndexOutOfRange"
  by (simp add: readFiles_def pinned_def card_with_files_def blank_card_def in_range_def)

end
